theory Spec2Isabelle
  imports Main
begin

section \<open>Data model\<close>

text \<open>
  Modelled from the spec: the \<^verbatim>\<open>User\<close> table row (\<^verbatim>\<open>app/models/user.py\<close> is not among the
  sources; section 3 of the specification lists the attributes of a principal). Only the
  columns that \<^verbatim>\<open>core/security.py\<close> and \<^verbatim>\<open>api/auth.py\<close> read are kept. The column
  \<^verbatim>\<open>id\<close> is named \<open>id_user\<close> here.
\<close>

record user =
  id_user :: int
  username :: string
  hashed_password :: string
  is_active :: bool
  is_superuser :: bool
  is_two_factor_enabled :: bool
  two_factor_secret :: "string option"

text \<open>
  The claims of a token: the dictionary that \<^verbatim>\<open>create_access_token\<close> encodes and
  \<^verbatim>\<open>jwt.decode\<close> returns. A key that is absent from the dictionary is \<open>None\<close>, which is what
  \<^verbatim>\<open>payload.get(...)\<close> yields for it. The value types are those of the annotations in
  \<^verbatim>\<open>get_current_user_for_2fa\<close> (\<^verbatim>\<open>Optional[str]\<close>, \<^verbatim>\<open>Optional[int]\<close>); \<open>exp\<close> is the
  integer timestamp (seconds) into which the library turns the \<^verbatim>\<open>datetime\<close> on encoding.
\<close>

record payload =
  sub :: "string option"
  scope :: "string option"
  user_id :: "int option"
  jti :: "string option"
  exp :: "int option"

text \<open>
  A bearer token is a string. The model keeps what \<^verbatim>\<open>jwt.decode\<close> can tell about it:
  either it is no well-formed signed token at all (\<open>Garbage\<close>), or it is a signed token
  \<open>JWT k p\<close> with claims \<open>p\<close> whose HS256 signature was made with key \<open>k\<close>. The signature is
  ideal: it verifies under the key it was made with and under no other.
\<close>

datatype token = Garbage string | JWT string payload

datatype jwt_error = JWTError | ExpiredSignatureError

text \<open>
  Exceptions that leave a handler: FastAPI's \<^verbatim>\<open>HTTPException\<close> with its status code, detail
  and headers, and the \<^verbatim>\<open>UnknownHashError\<close> of the password-hashing library.
\<close>

datatype exn =
  HTTPException nat string "(string \<times> string) list"
| UnknownHashError

text \<open>An entry of the revocation store, as \<^verbatim>\<open>setex(key, ttl, value)\<close> writes it at time \<open>stored_at\<close>.\<close>

record redis_entry =
  entry_value :: string
  ttl :: int
  stored_at :: int

text \<open>
  Everything a request handler reads or writes: the signing key (\<^verbatim>\<open>SECRET_KEY\<close>, read from
  the environment at start-up), the rows of the user table in the order the database
  returns them, the revocation store, the clock \<open>utcnow\<close> in whole seconds since the epoch
  (the reading of \<^verbatim>\<open>datetime.utcnow()\<close>, which is also the clock of the token library and
  of the revocation store), the offset \<open>utcoffset\<close> of the process's time zone from UTC in
  seconds (0 in a process that runs in UTC, 32400 in Tokyo, -18000 in New York in winter),
  and the two library routines whose arithmetic is outside the repository: the bcrypt
  handler's check of a
  password against a digest it has identified, and \<^verbatim>\<open>pyotp.TOTP(secret).verify(code)\<close> at
  a given time. The revocation store and the database always answer: connection failures
  are not part of the model.
\<close>

record world =
  SECRET_KEY :: string
  users :: "user list"
  redis :: "string \<rightharpoonup> redis_entry"
  utcnow :: int
  utcoffset :: int
  bcrypt_verify :: "string \<Rightarrow> string \<Rightarrow> exn + bool"
  totp_verify :: "string \<Rightarrow> string \<Rightarrow> int \<Rightarrow> bool"

text \<open>The body that login and second-factor completion return (absent keys are \<open>None\<close>).\<close>

record token_response =
  access_token :: token
  token_type :: string
  is_2fa_required :: "bool option"
  response_user_id :: "int option"

section \<open>Library calls\<close>

text \<open>
  \<^verbatim>\<open>jwt.encode(claims, key, algorithm="HS256")\<close> and
  \<^verbatim>\<open>jwt.decode(token, key, algorithms=["HS256"], options={"verify_exp": ...})\<close> of
  python-jose. Decoding fails on a malformed token and on a signature made with another
  key; with expiry verification it fails when the \<open>exp\<close> claim is present and
  \<open>exp < now\<close> (the library's test: a token is still good during the second \<open>exp\<close> itself).
  Every failure is a subclass of \<^verbatim>\<open>JWTError\<close>.
\<close>

definition jwt_encode :: "payload \<Rightarrow> string \<Rightarrow> token" where
  "jwt_encode claims key = JWT key claims"

definition jwt_decode :: "token \<Rightarrow> string \<Rightarrow> bool \<Rightarrow> int \<Rightarrow> jwt_error + payload" where
  "jwt_decode tok key verify_exp now =
     (case tok of
        Garbage s \<Rightarrow> Inl JWTError
      | JWT k claims \<Rightarrow>
          if k \<noteq> key then Inl JWTError
          else if verify_exp then
            (case exp claims of
               None \<Rightarrow> Inr claims
             | Some e \<Rightarrow> if e < now then Inl ExpiredSignatureError else Inr claims)
          else Inr claims)"

text \<open>
  The revocation store: \<^verbatim>\<open>setex\<close> writes an entry that lives for \<open>ttl\<close> seconds,
  \<^verbatim>\<open>exists\<close> sees an entry until its time to live has elapsed. Time is counted in whole
  seconds: an entry written in second \<open>s\<close> with time to live \<open>n\<close> is seen in the seconds
  \<open>s\<close> to \<open>s + n - 1\<close> and has lapsed from the second \<open>s + n\<close> on.
\<close>

definition redis_setex :: "world \<Rightarrow> string \<Rightarrow> int \<Rightarrow> string \<Rightarrow> world" where
  "redis_setex w key seconds v =
     w\<lparr>redis := (redis w)(key \<mapsto> \<lparr>entry_value = v, ttl = seconds, stored_at = utcnow w\<rparr>)\<rparr>"

definition redis_exists :: "world \<Rightarrow> string \<Rightarrow> bool" where
  "redis_exists w key =
     (case redis w key of
        None \<Rightarrow> False
      | Some e \<Rightarrow> utcnow w < stored_at e + ttl e)"

text \<open>
  \<^verbatim>\<open>pwd_context = CryptContext(schemes=["bcrypt"], deprecated="auto")\<close>. Its \<^verbatim>\<open>verify\<close>
  first identifies the scheme of the digest, by the bcrypt prefixes; a digest that no
  configured scheme identifies raises \<^verbatim>\<open>UnknownHashError\<close>. An identified digest goes to
  the bcrypt handler.
\<close>

definition bcrypt_ident_values :: "string list" where
  "bcrypt_ident_values = [''$2$'', ''$2a$'', ''$2x$'', ''$2y$'', ''$2b$'']"

definition starts_with :: "string \<Rightarrow> string \<Rightarrow> bool" where
  "starts_with s p = (take (length p) s = p)"

definition bcrypt_identify :: "string \<Rightarrow> bool" where
  "bcrypt_identify h = list_ex (starts_with h) bcrypt_ident_values"

definition pwd_context_verify :: "world \<Rightarrow> string \<Rightarrow> string \<Rightarrow> exn + bool" where
  "pwd_context_verify w secret h =
     (if bcrypt_identify h then bcrypt_verify w secret h else Inl UnknownHashError)"

section \<open>core/security.py\<close>

definition ACCESS_TOKEN_EXPIRE_MINUTES :: int where
  "ACCESS_TOKEN_EXPIRE_MINUTES = 30"

text \<open>A \<^verbatim>\<open>timedelta\<close> is a number of seconds.\<close>

definition minutes :: "int \<Rightarrow> int" where
  "minutes m = 60 * m"

definition verify_password :: "world \<Rightarrow> string \<Rightarrow> string \<Rightarrow> exn + bool" where
  "verify_password w plain_password hashed = pwd_context_verify w plain_password hashed"

text \<open>
  \<^verbatim>\<open>create_access_token\<close>. The argument \<open>uuid4_hex\<close> is the value that \<^verbatim>\<open>uuid.uuid4().hex\<close>
  draws in this call. \<^verbatim>\<open>if expires_delta:\<close> is false for \<^verbatim>\<open>None\<close> and for a zero delta.
\<close>

definition create_access_token :: "world \<Rightarrow> string \<Rightarrow> payload \<Rightarrow> int option \<Rightarrow> token" where
  "create_access_token w uuid4_hex data expires_delta =
     (let expire =
            (case expires_delta of
               None \<Rightarrow> utcnow w + minutes ACCESS_TOKEN_EXPIRE_MINUTES
             | Some d \<Rightarrow>
                 if d \<noteq> 0 then utcnow w + d
                 else utcnow w + minutes ACCESS_TOKEN_EXPIRE_MINUTES);
          to_encode = data\<lparr>exp := Some expire, jti := Some uuid4_hex\<rparr>
      in jwt_encode to_encode (SECRET_KEY w))"

definition blocked_key :: "string \<Rightarrow> string" where
  "blocked_key j = ''blocked_jti:'' @ j"

text \<open>
  \<^verbatim>\<open>add_token_to_blocklist\<close>. Its clock is \<^verbatim>\<open>int(datetime.utcnow().timestamp())\<close>:
  \<^verbatim>\<open>datetime.utcnow()\<close> is a naive datetime showing UTC, and \<^verbatim>\<open>timestamp()\<close> reads a naive
  datetime as local time, so the result is the epoch second minus the offset of the process's
  time zone. It is the epoch second only in a process that runs in UTC.
\<close>

definition local_timestamp :: "world \<Rightarrow> int" where
  "local_timestamp w = utcnow w - utcoffset w"

definition add_token_to_blocklist :: "world \<Rightarrow> string \<Rightarrow> int \<Rightarrow> world" where
  "add_token_to_blocklist w j expires_at_timestamp =
     (let now_timestamp = local_timestamp w;
          t = expires_at_timestamp - now_timestamp
      in if t > 0 then redis_setex w (blocked_key j) t ''true'' else w)"

definition credentials_exception :: exn where
  "credentials_exception =
     HTTPException 401 ''Could not validate credentials'' [(''WWW-Authenticate'', ''Bearer'')]"

definition get_current_user :: "world \<Rightarrow> token \<Rightarrow> exn + user" where
  "get_current_user w tok =
     (case jwt_decode tok (SECRET_KEY w) True (utcnow w) of
        Inl e \<Rightarrow> Inl credentials_exception
      | Inr p \<Rightarrow>
          (case (sub p, jti p) of
             (Some name, Some j) \<Rightarrow>
               if redis_exists w (blocked_key j) then Inl credentials_exception
               else if scope p = Some ''2fa_required'' then
                 Inl (HTTPException 401
                   ''Token valid only for 2FA verification step. Full authentication required.''
                   [(''WWW-Authenticate'', ''Bearer'')])
               else
                 (case find (\<lambda>u. username u = name) (users w) of
                    None \<Rightarrow> Inl credentials_exception
                  | Some u \<Rightarrow> Inr u)
           | _ \<Rightarrow> Inl credentials_exception))"

definition get_current_active_user :: "world \<Rightarrow> token \<Rightarrow> exn + user" where
  "get_current_active_user w tok =
     (case get_current_user w tok of
        Inl e \<Rightarrow> Inl e
      | Inr current_user \<Rightarrow>
          if \<not> is_active current_user then Inl (HTTPException 400 ''Inactive user'' [])
          else Inr current_user)"

definition authenticate_user :: "world \<Rightarrow> string \<Rightarrow> string \<Rightarrow> exn + user option" where
  "authenticate_user w name password =
     (case find (\<lambda>u. username u = name) (users w) of
        None \<Rightarrow> Inr None
      | Some u \<Rightarrow>
          (case verify_password w password (hashed_password u) of
             Inl e \<Rightarrow> Inl e
           | Inr ok \<Rightarrow> if \<not> ok then Inr None else Inr (Some u)))"

definition credentials_exception_2fa :: exn where
  "credentials_exception_2fa =
     HTTPException 401 ''Could not validate credentials for 2FA''
       [(''WWW-Authenticate'', ''Bearer'')]"

definition get_current_user_for_2fa :: "world \<Rightarrow> token \<Rightarrow> exn + user" where
  "get_current_user_for_2fa w tok =
     (case jwt_decode tok (SECRET_KEY w) True (utcnow w) of
        Inl e \<Rightarrow> Inl credentials_exception_2fa
      | Inr p \<Rightarrow>
          (case (sub p, user_id p, jti p) of
             (Some name, Some uid, Some j) \<Rightarrow>
               if scope p \<noteq> Some ''2fa_required'' then Inl credentials_exception_2fa
               else if redis_exists w (blocked_key j) then Inl credentials_exception_2fa
               else
                 (case find (\<lambda>u. id_user u = uid) (users w) of
                    None \<Rightarrow> Inl credentials_exception_2fa
                  | Some u \<Rightarrow>
                      if username u \<noteq> name then Inl credentials_exception_2fa else Inr u)
           | _ \<Rightarrow> Inl credentials_exception_2fa))"

section \<open>api/auth.py\<close>

text \<open>
  The routes. The rate limiter that the decorators of \<^verbatim>\<open>/login\<close> and \<^verbatim>\<open>/verify-2fa\<close>
  install runs before the handlers and is not part of them; the dependencies named in a
  handler's signature are part of its model. In the dependencies of \<^verbatim>\<open>core/security.py\<close>
  the tests joined by \<^verbatim>\<open>or\<close> all raise the same exception, so the order in which the
  model looks at the claims is immaterial.
\<close>

definition login_for_access_token ::
  "world \<Rightarrow> string \<Rightarrow> string \<Rightarrow> string \<Rightarrow> exn + token_response" where
  "login_for_access_token w form_username form_password uuid4_hex =
     (case authenticate_user w form_username form_password of
        Inl e \<Rightarrow> Inl e
      | Inr None \<Rightarrow>
          Inl (HTTPException 401 ''Incorrect username or password''
                 [(''WWW-Authenticate'', ''Bearer'')])
      | Inr (Some u) \<Rightarrow>
          if is_two_factor_enabled u then
            Inr \<lparr>access_token =
                   create_access_token w uuid4_hex
                     \<lparr>sub = Some (username u), scope = Some ''2fa_required'',
                      user_id = Some (id_user u), jti = None, exp = None\<rparr>
                     (Some (minutes 5)),
                 token_type = ''bearer'',
                 is_2fa_required = Some True,
                 response_user_id = Some (id_user u)\<rparr>
          else
            Inr \<lparr>access_token =
                   create_access_token w uuid4_hex
                     \<lparr>sub = Some (username u), scope = None,
                      user_id = None, jti = None, exp = None\<rparr>
                     (Some (minutes ACCESS_TOKEN_EXPIRE_MINUTES)),
                 token_type = ''bearer'',
                 is_2fa_required = None,
                 response_user_id = None\<rparr>)"

text \<open>
  \<^verbatim>\<open>verify_2fa_login\<close>: the dependency \<^verbatim>\<open>get_current_user_for_2fa\<close> of its signature runs
  first, then the body. \<open>code\<close> is \<^verbatim>\<open>request_data.code\<close>.
\<close>

definition verify_2fa_login ::
  "world \<Rightarrow> token \<Rightarrow> string \<Rightarrow> string \<Rightarrow> exn + token_response" where
  "verify_2fa_login w tok code uuid4_hex =
     (case get_current_user_for_2fa w tok of
        Inl e \<Rightarrow> Inl e
      | Inr current_user \<Rightarrow>
          (case find (\<lambda>u. id_user u = id_user current_user) (users w) of
             None \<Rightarrow> Inl (HTTPException 400 ''2FA not enabled or user not found.'' [])
           | Some u \<Rightarrow>
               if \<not> is_two_factor_enabled u then
                 Inl (HTTPException 400 ''2FA not enabled or user not found.'' [])
               else
                 (case two_factor_secret u of
                    None \<Rightarrow> Inl (HTTPException 400 ''2FA not enabled or user not found.'' [])
                  | Some secret \<Rightarrow>
                      if secret = [] then
                        Inl (HTTPException 400 ''2FA not enabled or user not found.'' [])
                      else if \<not> totp_verify w secret code (utcnow w) then
                        Inl (HTTPException 400 ''Invalid 2FA code.''
                               [(''WWW-Authenticate'', ''Bearer'')])
                      else
                        Inr \<lparr>access_token =
                               create_access_token w uuid4_hex
                                 \<lparr>sub = Some (username u), scope = None,
                                  user_id = None, jti = None, exp = None\<rparr>
                                 (Some (minutes ACCESS_TOKEN_EXPIRE_MINUTES)),
                             token_type = ''bearer'',
                             is_2fa_required = None,
                             response_user_id = None\<rparr>)))"

definition read_users_me :: "world \<Rightarrow> token \<Rightarrow> exn + user" where
  "read_users_me w tok = get_current_active_user w tok"

text \<open>
  The body of \<^verbatim>\<open>logout\<close>: the \<^verbatim>\<open>try\<close> block with its \<^verbatim>\<open>except JWTError\<close> handler.
  \<^verbatim>\<open>if jti and exp_timestamp:\<close> is false for an absent claim, for the empty string and for
  the timestamp 0. With a store that always answers, nothing in the block raises an
  exception other than \<^verbatim>\<open>JWTError\<close>, so the last handler (\<^verbatim>\<open>except Exception\<close>) is
  never entered in this model.
\<close>

definition logout_body :: "world \<Rightarrow> token \<Rightarrow> string \<times> world" where
  "logout_body w tok =
     (case jwt_decode tok (SECRET_KEY w) False (utcnow w) of
        Inl e \<Rightarrow> (''Logout successful (token was invalid)'', w)
      | Inr p \<Rightarrow>
          (case (jti p, exp p) of
             (Some j, Some exp_timestamp) \<Rightarrow>
               if j \<noteq> [] \<and> exp_timestamp \<noteq> 0 then
                 (''Successfully logged out'', add_token_to_blocklist w j exp_timestamp)
               else (''Successfully logged out'', w)
           | _ \<Rightarrow> (''Successfully logged out'', w)))"

text \<open>
  The route \<^verbatim>\<open>POST /logout\<close>: the dependency \<^verbatim>\<open>get_current_active_user\<close> of the signature
  is resolved first; when it raises, the body does not run and the store is unchanged.
\<close>

definition logout :: "world \<Rightarrow> token \<Rightarrow> (exn + string) \<times> world" where
  "logout w tok =
     (case get_current_active_user w tok of
        Inl e \<Rightarrow> (Inl e, w)
      | Inr current_user \<Rightarrow>
          (let (message, w') = logout_body w tok in (Inr message, w')))"

text \<open>The status code of an outcome, when it is an HTTP error.\<close>

fun http_status :: "exn + 'a \<Rightarrow> nat option" where
  "http_status (Inl (HTTPException code detail headers)) = Some code"
| "http_status _ = None"

section \<open>A small deployment\<close>

text \<open>
  Concrete data on which the theorems below are exercised: three accounts (one plain, one
  with a second factor, one deactivated with a second factor), an empty revocation store,
  the clock at second 1000, and stand-ins for the two library routines.
\<close>

definition alice :: user where
  "alice = \<lparr>id_user = 1, username = ''alice'', hashed_password = ''$2b$correct-pw'',
            is_active = True, is_superuser = False,
            is_two_factor_enabled = False, two_factor_secret = None\<rparr>"

definition bob :: user where
  "bob = \<lparr>id_user = 2, username = ''bob'', hashed_password = ''$2b$pw'',
          is_active = True, is_superuser = False,
          is_two_factor_enabled = True, two_factor_secret = Some ''S''\<rparr>"

definition carol :: user where
  "carol = \<lparr>id_user = 3, username = ''carol'', hashed_password = ''$2b$pw3'',
            is_active = False, is_superuser = False,
            is_two_factor_enabled = True, two_factor_secret = Some ''C''\<rparr>"

definition world0 :: world where
  "world0 = \<lparr>SECRET_KEY = ''k'', users = [alice, bob, carol], redis = Map.empty,
             utcnow = 1000, utcoffset = 0,
             bcrypt_verify = (\<lambda>secret h. Inr (h = ''$2b$'' @ secret)),
             totp_verify = (\<lambda>secret code t. code = ''code-for-'' @ secret)\<rparr>"

definition bearer_for :: "string \<Rightarrow> string \<Rightarrow> int \<Rightarrow> token" where
  "bearer_for name j e =
     JWT ''k'' \<lparr>sub = Some name, scope = None, user_id = None, jti = Some j, exp = Some e\<rparr>"

definition restricted_for :: "string \<Rightarrow> int \<Rightarrow> string \<Rightarrow> int \<Rightarrow> token" where
  "restricted_for name uid j e =
     JWT ''k'' \<lparr>sub = Some name, scope = Some ''2fa_required'', user_id = Some uid,
               jti = Some j, exp = Some e\<rparr>"

text \<open>The same deployment in a process whose time zone is not UTC.\<close>

definition new_york :: world where
  "new_york = world0\<lparr>utcoffset := - 18000\<rparr>"

definition tokyo :: world where
  "tokyo = world0\<lparr>utcoffset := 32400\<rparr>"

text \<open>
  A deployment whose second-factor secrets are base32 strings and whose one-time codes are
  the ones RFC 6238 (SHA-1, six digits, steps of 30 seconds) gives for them in the step that
  contains second 1000: dave is deactivated, erin is active.
\<close>

definition dave :: user where
  "dave = \<lparr>id_user = 4, username = ''dave'', hashed_password = ''$2b$pw4'',
           is_active = False, is_superuser = False,
           is_two_factor_enabled = True, two_factor_secret = Some ''JBSWY3DPEHPK3PXP''\<rparr>"

definition erin :: user where
  "erin = \<lparr>id_user = 5, username = ''erin'', hashed_password = ''$2b$pw5'',
           is_active = True, is_superuser = False,
           is_two_factor_enabled = True,
           two_factor_secret = Some ''GEZDGNBVGY3TQOJQGEZDGNBVGY3TQOJQ''\<rparr>"

definition world1 :: world where
  "world1 = \<lparr>SECRET_KEY = ''k'', users = [dave, erin], redis = Map.empty,
             utcnow = 1000, utcoffset = 0,
             bcrypt_verify = (\<lambda>secret h. Inr (h = ''$2b$'' @ secret)),
             totp_verify = (\<lambda>secret code t.
               t div 30 = 33 \<and>
               (secret = ''JBSWY3DPEHPK3PXP'' \<and> code = ''475209''
                \<or> secret = ''GEZDGNBVGY3TQOJQGEZDGNBVGY3TQOJQ'' \<and> code = ''841346''))\<rparr>"

section \<open>Auxiliary facts\<close>

lemmas deployment_defs =
  world0_def alice_def bob_def carol_def bearer_for_def restricted_for_def

lemma find_username_distinct:
  "distinct (map username xs) \<Longrightarrow> u \<in> set xs \<Longrightarrow>
   find (\<lambda>x. username x = username u) xs = Some u"
  by (induction xs) (auto simp: image_iff)

lemma find_Some_mem: "find P xs = Some x \<Longrightarrow> x \<in> set xs \<and> P x"
  by (induction xs) (auto split: if_splits)

lemma find_same_name:
  "x \<in> set xs \<Longrightarrow> \<exists>y. find (\<lambda>z. username z = username x) xs = Some y \<and> username y = username x"
  by (induction xs) auto

lemma bcrypt_identify_2b: "bcrypt_identify (CHR ''$'' # CHR ''2'' # CHR ''b'' # CHR ''$'' # s)"
  by (simp add: bcrypt_identify_def bcrypt_ident_values_def starts_with_def)

lemma verify_password_world0:
  "verify_password world0 secret (''$2b$'' @ s) = Inr (s = secret)"
  by (simp add: verify_password_def pwd_context_verify_def bcrypt_identify_2b world0_def)

lemma users_world0: "users world0 = [alice, bob, carol]"
  by (simp add: world0_def)

lemma redis_world0: "redis_exists world0 key = False"
  by (simp add: redis_exists_def world0_def)

lemma world0_fields:
  "SECRET_KEY world0 = ''k''" "utcnow world0 = 1000" "redis world0 key = None"
  "utcoffset world0 = 0"
  by (simp_all add: world0_def)

lemma create_access_token_eq:
  "d \<noteq> 0 \<Longrightarrow> create_access_token w j data (Some d) =
     JWT (SECRET_KEY w) (data\<lparr>exp := Some (utcnow w + d), jti := Some j\<rparr>)"
  by (simp add: create_access_token_def jwt_encode_def Let_def)

text \<open>A token with the restricted scope is turned away with status 401 in every state.\<close>

lemma get_current_user_restricted:
  "scope p = Some ''2fa_required'' \<Longrightarrow> http_status (get_current_user w' (JWT k p)) = Some 401"
  by (simp add: get_current_user_def jwt_decode_def credentials_exception_def
      split: option.splits sum.splits prod.splits)

lemma get_current_active_user_status:
  "http_status (get_current_user w tok) = Some c \<Longrightarrow>
   http_status (get_current_active_user w tok) = Some c"
  by (cases "get_current_user w tok") (auto simp: get_current_active_user_def)

text \<open>A token just issued for a stored name, with an identifier that is not revoked, resolves.\<close>

lemma get_current_user_fresh:
  assumes "find (\<lambda>x. username x = name) (users w) = Some u"
      and "\<not> redis_exists w (blocked_key j)" and "0 \<le> d"
  shows "get_current_user w (JWT (SECRET_KEY w)
           \<lparr>sub = Some name, scope = None, user_id = None, jti = Some j,
            exp = Some (utcnow w + d)\<rparr>) = Inr u"
  using assms by (simp add: get_current_user_def jwt_decode_def)

lemma get_current_user_for_2fa_accepts:
  assumes "get_current_user_for_2fa w tok = Inr cu"
  shows "find (\<lambda>u. id_user u = id_user cu) (users w) = Some cu"
proof -
  from assms obtain uid where f: "find (\<lambda>u. id_user u = uid) (users w) = Some cu"
    by (auto simp: get_current_user_for_2fa_def split: sum.splits option.splits if_splits)
  then have "id_user cu = uid" by (auto dest: find_Some_mem)
  with f show ?thesis by simp
qed

text \<open>
  What the second-factor dependency has checked when it returns a principal: the token is
  signed with the server's key and not expired, its scope is exactly \<open>2fa_required\<close>, it
  carries the id and the username of the principal returned, and its identifier is not in
  the revocation store. A bearer token without scope is turned away.
\<close>

lemma get_current_user_for_2fa_accepted_token:
  assumes "get_current_user_for_2fa w tok = Inr cu"
  shows "\<exists>p j. tok = JWT (SECRET_KEY w) p \<and> scope p = Some ''2fa_required''
           \<and> sub p = Some (username cu) \<and> user_id p = Some (id_user cu)
           \<and> jti p = Some j \<and> \<not> redis_exists w (blocked_key j)
           \<and> (\<forall>e. exp p = Some e \<longrightarrow> utcnow w \<le> e)
           \<and> cu \<in> set (users w)"
proof (cases tok)
  case (Garbage g)
  with assms show ?thesis
    by (simp add: get_current_user_for_2fa_def jwt_decode_def)
next
  case (JWT k p)
  with assms have k: "k = SECRET_KEY w"
    and d: "jwt_decode tok (SECRET_KEY w) True (utcnow w) = Inr p"
    by (auto simp: get_current_user_for_2fa_def jwt_decode_def
        split: if_splits option.splits sum.splits)
  from d JWT k have e: "\<forall>e. exp p = Some e \<longrightarrow> utcnow w \<le> e"
    by (auto simp: jwt_decode_def split: if_splits option.splits)
  from assms d obtain name uid j where c: "sub p = Some name" "user_id p = Some uid"
    "jti p = Some j" "scope p = Some ''2fa_required''" "\<not> redis_exists w (blocked_key j)"
    "find (\<lambda>u. id_user u = uid) (users w) = Some cu" "username cu = name"
    by (auto simp: get_current_user_for_2fa_def split: option.splits if_splits)
  from c(6) have "cu \<in> set (users w)" "id_user cu = uid"
    by (auto dest: find_Some_mem)
  with JWT k c e show ?thesis by auto
qed

lemma get_current_user_for_2fa_rejects_bearer:
  "get_current_user_for_2fa world0 (bearer_for ''bob'' ''j7'' 1300) = Inl credentials_exception_2fa"
  by (simp add: get_current_user_for_2fa_def jwt_decode_def bearer_for_def world0_fields)

lemma verify_2fa_login_issues:
  assumes "get_current_user_for_2fa w tok = Inr cu"
      and "is_two_factor_enabled cu" and "two_factor_secret cu = Some secret"
      and "secret \<noteq> []" and "totp_verify w secret code (utcnow w)"
  shows "verify_2fa_login w tok code uuid4_hex =
           Inr \<lparr>access_token = JWT (SECRET_KEY w)
                  \<lparr>sub = Some (username cu), scope = None, user_id = None,
                   jti = Some uuid4_hex, exp = Some (utcnow w + 1800)\<rparr>,
                token_type = ''bearer'', is_2fa_required = None, response_user_id = None\<rparr>"
  using assms get_current_user_for_2fa_accepts [OF assms(1)]
  by (simp add: verify_2fa_login_def create_access_token_eq minutes_def
      ACCESS_TOKEN_EXPIRE_MINUTES_def)

lemma verify_2fa_login_wrong_code:
  assumes "get_current_user_for_2fa w tok = Inr cu"
      and "\<forall>s. two_factor_secret cu = Some s \<longrightarrow> \<not> totp_verify w s code (utcnow w)"
  shows "\<exists>detail headers.
           verify_2fa_login w tok code uuid4_hex = Inl (HTTPException 400 detail headers)"
  using assms get_current_user_for_2fa_accepts [OF assms(1)]
  by (simp add: verify_2fa_login_def split: option.splits)

lemma get_current_user_for_2fa_world0:
  "get_current_user_for_2fa world0 (restricted_for ''bob'' 2 ''j7'' 1300) = Inr bob"
  "get_current_user_for_2fa world0 (restricted_for ''carol'' 3 ''j9'' 1300) = Inr carol"
  by (simp_all add: get_current_user_for_2fa_def jwt_decode_def redis_exists_def
      deployment_defs)

text \<open>
  The second-factor path does not read the active flag: rewriting the flags of the table in
  any way leaves the outcome of the dependency (up to the flag of the row it returns) and of
  the route unchanged.
\<close>

lemma find_map_flag:
  "find (\<lambda>u. id_user u = uid) (map (\<lambda>u. u\<lparr>is_active := b u\<rparr>) xs) =
   map_option (\<lambda>u. u\<lparr>is_active := b u\<rparr>) (find (\<lambda>u. id_user u = uid) xs)"
  by (induction xs) auto

lemma get_current_user_for_2fa_ignores_active:
  "get_current_user_for_2fa (w\<lparr>users := map (\<lambda>u. u\<lparr>is_active := b u\<rparr>) (users w)\<rparr>) tok =
   map_sum id (\<lambda>u. u\<lparr>is_active := b u\<rparr>) (get_current_user_for_2fa w tok)"
  by (auto simp: get_current_user_for_2fa_def find_map_flag redis_exists_def
      split: sum.splits option.splits)

lemma verify_2fa_login_ignores_active:
  "verify_2fa_login (w\<lparr>users := map (\<lambda>u. u\<lparr>is_active := b u\<rparr>) (users w)\<rparr>) tok code j =
   verify_2fa_login w tok code j"
  by (auto simp: verify_2fa_login_def get_current_user_for_2fa_ignores_active find_map_flag
      create_access_token_def
      split: sum.splits option.splits)

text \<open>
  When the dependency of the logout route raises, the route answers with that error and
  writes nothing.
\<close>

lemma logout_dependency_error:
  "get_current_active_user w tok = Inl e \<Longrightarrow> logout w tok = (Inl e, w)"
  by (simp add: logout_def)

text \<open>
  Whenever the route answers with a message, it is the first one: a token that the
  dependency has accepted decodes again in the body, so the handler for \<^verbatim>\<open>JWTError\<close> is
  never reached through the route.
\<close>

lemma logout_message:
  "fst (logout w tok) = Inr m \<Longrightarrow> m = ''Successfully logged out''"
  by (auto simp: logout_def logout_body_def get_current_active_user_def get_current_user_def
      jwt_decode_def split: sum.splits option.splits if_splits token.splits prod.splits)

text \<open>
  What \<^verbatim>\<open>add_token_to_blocklist\<close> writes, in any time zone: the time to live is the expiry
  timestamp minus the epoch second plus the offset of the time zone, and the key is
  \<^verbatim>\<open>blocked_jti:\<close> followed by the identifier.
\<close>

lemma add_token_to_blocklist_any_zone:
  "add_token_to_blocklist w j expires_at =
     (if expires_at - utcnow w + utcoffset w > 0
      then w\<lparr>redis := (redis w)(''blocked_jti:'' @ j \<mapsto>
             \<lparr>entry_value = ''true'', ttl = expires_at - utcnow w + utcoffset w,
              stored_at = utcnow w\<rparr>)\<rparr>
      else w)"
  by (simp add: add_token_to_blocklist_def local_timestamp_def redis_setex_def blocked_key_def
      Let_def algebra_simps)

text \<open>
  In a process that runs in UTC the entry is seen exactly at the seconds before the token's
  expiry timestamp.
\<close>

lemma add_token_to_blocklist_utc:
  assumes "utcoffset w = 0"
  shows "expires_at - utcnow w \<le> 0 \<Longrightarrow> add_token_to_blocklist w j expires_at = w"
    and "expires_at - utcnow w > 0 \<Longrightarrow>
           redis (add_token_to_blocklist w j expires_at) (''blocked_jti:'' @ j) =
             Some \<lparr>entry_value = ''true'', ttl = expires_at - utcnow w, stored_at = utcnow w\<rparr>"
    and "expires_at - utcnow w > 0 \<Longrightarrow>
           redis_exists ((add_token_to_blocklist w j expires_at)\<lparr>utcnow := t\<rparr>)
             (''blocked_jti:'' @ j) \<longleftrightarrow> t < expires_at"
  using assms by (simp_all add: add_token_to_blocklist_any_zone redis_exists_def)

text \<open>
  What logout does achieve in a process that runs in UTC: for a token that the route
  accepts, with a non-empty identifier and an expiry strictly after the current second, the
  entry written hides the token at every second before \<open>exp\<close>, and after \<open>exp\<close> the token
  has expired; the second \<open>exp\<close> itself is the one at which the entry is gone and the token
  is still good.
\<close>

lemma logout_revokes:
  assumes "get_current_active_user w (JWT k p) = Inr u"
      and "jti p = Some j" and "j \<noteq> []" and "exp p = Some e"
      and "utcnow w < e" and "e \<noteq> 0" and "t \<noteq> e" and "utcoffset w = 0"
  shows "fst (logout w (JWT k p)) = Inr ''Successfully logged out''"
    and "get_current_user ((snd (logout w (JWT k p)))\<lparr>utcnow := t, users := us\<rparr>) (JWT k p)
           = Inl credentials_exception"
proof -
  have key: "k = SECRET_KEY w"
    using assms(1)
    by (auto simp: get_current_active_user_def get_current_user_def jwt_decode_def
        split: sum.splits if_splits)
  have lo: "logout w (JWT k p) =
              (Inr ''Successfully logged out'',
               w\<lparr>redis := (redis w)(blocked_key j \<mapsto>
                   \<lparr>entry_value = ''true'', ttl = e - utcnow w, stored_at = utcnow w\<rparr>)\<rparr>)"
    using assms key
    by (simp add: logout_def logout_body_def jwt_decode_def add_token_to_blocklist_def
        local_timestamp_def redis_setex_def Let_def)
  show "fst (logout w (JWT k p)) = Inr ''Successfully logged out''"
    by (simp add: lo)
  show "get_current_user ((snd (logout w (JWT k p)))\<lparr>utcnow := t, users := us\<rparr>) (JWT k p)
           = Inl credentials_exception"
    unfolding lo using assms(2,4,7) key
    by (simp add: get_current_user_def jwt_decode_def redis_exists_def
        split: option.splits)
qed

text \<open>
  West of UTC the time to live of a token with half an hour left is negative: the route
  answers with its success message, nothing is written and the token still resolves.
\<close>

lemma logout_west_of_utc:
  "logout new_york (bearer_for ''alice'' ''j1'' 2800) = (Inr ''Successfully logged out'', new_york)"
  "get_current_user new_york (bearer_for ''alice'' ''j1'' 2800) = Inr alice"
proof -
  show a: "get_current_user new_york (bearer_for ''alice'' ''j1'' 2800) = Inr alice"
    by (simp add: get_current_user_def jwt_decode_def redis_exists_def new_york_def
        deployment_defs)
  have b: "get_current_active_user new_york (bearer_for ''alice'' ''j1'' 2800) = Inr alice"
    by (simp add: get_current_active_user_def a) (simp add: alice_def)
  have c: "logout_body new_york (bearer_for ''alice'' ''j1'' 2800) =
             (''Successfully logged out'', new_york)"
    by (simp add: logout_body_def jwt_decode_def add_token_to_blocklist_any_zone bearer_for_def
        new_york_def world0_fields)
  show "logout new_york (bearer_for ''alice'' ''j1'' 2800) =
          (Inr ''Successfully logged out'', new_york)"
    by (simp add: logout_def b c)
qed

lemma world1_fields:
  "SECRET_KEY world1 = ''k''" "utcnow world1 = 1000" "redis world1 key = None"
  "users world1 = [dave, erin]"
  "totp_verify world1 secret code t =
     (t div 30 = 33 \<and>
       (secret = ''JBSWY3DPEHPK3PXP'' \<and> code = ''475209''
        \<or> secret = ''GEZDGNBVGY3TQOJQGEZDGNBVGY3TQOJQ'' \<and> code = ''841346''))"
  by (simp_all add: world1_def)

lemma get_current_user_for_2fa_world1:
  "get_current_user_for_2fa world1
     (restricted_for ''dave'' 4 ''0f1e2d3c4b5a69788796a5b4c3d2e1f0'' 1300) = Inr dave"
  "get_current_user_for_2fa world1
     (restricted_for ''erin'' 5 ''00112233445566778899aabbccddeeff'' 1300) = Inr erin"
  by (simp_all add: get_current_user_for_2fa_def jwt_decode_def redis_exists_def
      world1_fields restricted_for_def dave_def erin_def)

section \<open>The claims\<close>

text \<open>
  C1: for every principal with the second factor enabled whose credentials authenticate,
  login returns a token whose scope claim is \<open>2fa_required\<close>, together with the flag
  \<open>is_2fa_required\<close> set and the principal's id, and not a token without scope; that token is
  answered with status 401 (Unauthorized) by \<open>get_current_user\<close>, and therefore by
  \<open>get_current_active_user\<close>, on which every other protected route depends, in every state of
  the server. The same holds for every signed token whose scope claim is \<open>2fa_required\<close>.
\<close>

theorem login_second_factor_token_restricted:
  assumes "authenticate_user w name password = Inr (Some u)" and "is_two_factor_enabled u"
  shows "\<exists>tok. login_for_access_token w name password uuid4_hex =
            Inr \<lparr>access_token = tok, token_type = ''bearer'',
                 is_2fa_required = Some True, response_user_id = Some (id_user u)\<rparr>
          \<and> tok = JWT (SECRET_KEY w)
                 \<lparr>sub = Some (username u), scope = Some ''2fa_required'',
                  user_id = Some (id_user u), jti = Some uuid4_hex,
                  exp = Some (utcnow w + 300)\<rparr>
          \<and> (\<forall>w'. http_status (get_current_user w' tok) = Some 401
                  \<and> http_status (get_current_active_user w' tok) = Some 401)
          \<and> (\<forall>w' k p. scope p = Some ''2fa_required'' \<longrightarrow>
                  http_status (get_current_user w' (JWT k p)) = Some 401
                  \<and> http_status (get_current_active_user w' (JWT k p)) = Some 401)"
proof -
  let ?tok = "create_access_token w uuid4_hex
                     \<lparr>sub = Some (username u), scope = Some ''2fa_required'',
                      user_id = Some (id_user u), jti = None, exp = None\<rparr>
                     (Some (minutes 5))"
  have tok: "?tok = JWT (SECRET_KEY w)
                 \<lparr>sub = Some (username u), scope = Some ''2fa_required'',
                  user_id = Some (id_user u), jti = Some uuid4_hex,
                  exp = Some (utcnow w + 300)\<rparr>"
    by (simp add: create_access_token_eq minutes_def)
  have login: "login_for_access_token w name password uuid4_hex =
            Inr \<lparr>access_token = ?tok, token_type = ''bearer'',
                 is_2fa_required = Some True, response_user_id = Some (id_user u)\<rparr>"
    using assms by (simp add: login_for_access_token_def)
  have rej: "http_status (get_current_user w' ?tok) = Some 401" for w'
    unfolding tok by (rule get_current_user_restricted) simp
  have all: "scope p = Some ''2fa_required'' \<longrightarrow>
                  http_status (get_current_user w' (JWT k p)) = Some 401
                  \<and> http_status (get_current_active_user w' (JWT k p)) = Some 401" for w' k p
    by (simp add: get_current_user_restricted get_current_active_user_status)
  have rej2: "http_status (get_current_active_user w' ?tok) = Some 401" for w'
    using rej by (rule get_current_active_user_status)
  from login tok rej rej2 all show ?thesis by (intro exI [of _ ?tok]) simp
qed

theorem login_second_factor_token_restricted_witness:
  "authenticate_user world0 ''bob'' ''pw'' = Inr (Some bob) \<and> is_two_factor_enabled bob
   \<and> login_for_access_token world0 ''bob'' ''pw'' ''j7'' =
       Inr \<lparr>access_token = restricted_for ''bob'' 2 ''j7'' 1300, token_type = ''bearer'',
            is_2fa_required = Some True, response_user_id = Some 2\<rparr>
   \<and> http_status (get_current_user world0 (restricted_for ''bob'' 2 ''j7'' 1300)) = Some 401
   \<and> http_status (get_current_active_user world0 (restricted_for ''bob'' 2 ''j7'' 1300))
       = Some 401"
proof -
  have a: "authenticate_user world0 ''bob'' ''pw'' = Inr (Some bob)"
    by (simp add: authenticate_user_def users_world0 alice_def bob_def
        verify_password_world0 [of "''pw''" "''pw''", simplified])
  have b: "is_two_factor_enabled bob"
    by (simp add: bob_def)
  have c: "SECRET_KEY world0 = ''k''" "utcnow world0 = 1000" "id_user bob = 2"
    "username bob = ''bob''"
    by (simp_all add: world0_def bob_def)
  from login_second_factor_token_restricted [OF a b, of "''j7''"] a b show ?thesis
    by (auto simp: c restricted_for_def)
qed

text \<open>
  C4: for every stored principal (usernames in the table are unique) that is active, has the
  second factor disabled and whose stored digest verifies the password, login issues a
  bearer token without scope claim, and \<open>get_current_user\<close> and \<open>get_current_active_user\<close>,
  applied to that token in the same state, return that principal. The identifier drawn for
  the token is one that is not in the revocation store.
\<close>

theorem login_then_resolve_same_principal:
  assumes "distinct (map username (users w))" and "u \<in> set (users w)"
      and "\<not> is_two_factor_enabled u" and "is_active u"
      and "verify_password w password (hashed_password u) = Inr True"
      and "\<not> redis_exists w (blocked_key uuid4_hex)"
  shows "\<exists>tok. login_for_access_token w (username u) password uuid4_hex =
            Inr \<lparr>access_token = tok, token_type = ''bearer'',
                 is_2fa_required = None, response_user_id = None\<rparr>
          \<and> tok = JWT (SECRET_KEY w)
                 \<lparr>sub = Some (username u), scope = None, user_id = None,
                  jti = Some uuid4_hex, exp = Some (utcnow w + 1800)\<rparr>
          \<and> get_current_user w tok = Inr u
          \<and> get_current_active_user w tok = Inr u"
proof -
  have f: "find (\<lambda>x. username x = username u) (users w) = Some u"
    using assms(1,2) by (rule find_username_distinct)
  have auth: "authenticate_user w (username u) password = Inr (Some u)"
    using f assms(5) by (simp add: authenticate_user_def)
  let ?tok = "JWT (SECRET_KEY w)
                 \<lparr>sub = Some (username u), scope = None, user_id = None,
                  jti = Some uuid4_hex, exp = Some (utcnow w + 1800)\<rparr>"
  have login: "login_for_access_token w (username u) password uuid4_hex =
            Inr \<lparr>access_token = ?tok, token_type = ''bearer'',
                 is_2fa_required = None, response_user_id = None\<rparr>"
    using auth assms(3)
    by (simp add: login_for_access_token_def create_access_token_eq minutes_def
        ACCESS_TOKEN_EXPIRE_MINUTES_def)
  have res: "get_current_user w ?tok = Inr u"
    using f assms(6) by (rule get_current_user_fresh) simp
  have act: "get_current_active_user w ?tok = Inr u"
    using res assms(4) by (simp add: get_current_active_user_def)
  from login res act show ?thesis by blast
qed

theorem login_then_resolve_same_principal_witness:
  "distinct (map username (users world0)) \<and> alice \<in> set (users world0)
   \<and> \<not> is_two_factor_enabled alice \<and> is_active alice
   \<and> verify_password world0 ''correct-pw'' (hashed_password alice) = Inr True
   \<and> \<not> redis_exists world0 (blocked_key ''j1'')
   \<and> login_for_access_token world0 ''alice'' ''correct-pw'' ''j1'' =
       Inr \<lparr>access_token = bearer_for ''alice'' ''j1'' 2800, token_type = ''bearer'',
            is_2fa_required = None, response_user_id = None\<rparr>
   \<and> get_current_user world0 (bearer_for ''alice'' ''j1'' 2800) = Inr alice
   \<and> get_current_active_user world0 (bearer_for ''alice'' ''j1'' 2800) = Inr alice"
proof -
  have h1: "distinct (map username (users world0))"
    by (simp add: deployment_defs)
  have h2: "alice \<in> set (users world0)"
    by (simp add: users_world0)
  have h3: "\<not> is_two_factor_enabled alice" and h4: "is_active alice"
    by (simp_all add: alice_def)
  have h5: "verify_password world0 ''correct-pw'' (hashed_password alice) = Inr True"
    by (simp add: alice_def verify_password_world0 [of "''correct-pw''" "''correct-pw''", simplified])
  have h6: "\<not> redis_exists world0 (blocked_key ''j1'')"
    by (simp add: redis_world0)
  have c: "SECRET_KEY world0 = ''k''" "utcnow world0 = 1000" "username alice = ''alice''"
    by (simp_all add: world0_def alice_def)
  from login_then_resolve_same_principal [OF h1 h2 h3 h4 h5 h6] h1 h2 h3 h4 h5 h6
  show ?thesis
    by (auto simp: c bearer_for_def)
qed

text \<open>
  C5, as the code has it: let a restricted token be accepted by \<open>get_current_user_for_2fa\<close>,
  which returns the principal \<open>cu\<close>. If \<open>cu\<close> has the second factor enabled with a non-empty
  enrolled secret and the submitted code verifies against that secret, \<open>verify_2fa_login\<close>
  returns a bearer token without scope claim, whether \<open>cu\<close> is active or not;
  \<open>get_current_user\<close> resolves that token in the same state (the identifier drawn for it not
  being in the revocation store) to a principal of the same username, and when \<open>cu\<close> is
  active and usernames are unique, \<open>get_current_user\<close> and \<open>get_current_active_user\<close>, the
  dependency of every protected route, both return \<open>cu\<close>. If the submitted code does not
  verify against the secret of \<open>cu\<close>, \<open>verify_2fa_login\<close> fails with status 400 and returns
  neither token nor principal.
\<close>

theorem second_factor_completion_resolves_active_principal:
  assumes "get_current_user_for_2fa w tok = Inr cu"
  shows "(is_two_factor_enabled cu \<and> two_factor_secret cu = Some secret \<and> secret \<noteq> []
          \<and> totp_verify w secret code (utcnow w) \<and> \<not> redis_exists w (blocked_key uuid4_hex)
          \<longrightarrow> (\<exists>tok2 u'. verify_2fa_login w tok code uuid4_hex =
                    Inr \<lparr>access_token = tok2, token_type = ''bearer'',
                         is_2fa_required = None, response_user_id = None\<rparr>
                \<and> tok2 = JWT (SECRET_KEY w)
                     \<lparr>sub = Some (username cu), scope = None, user_id = None,
                      jti = Some uuid4_hex, exp = Some (utcnow w + 1800)\<rparr>
                \<and> get_current_user w tok2 = Inr u' \<and> username u' = username cu
                \<and> (is_active cu \<and> distinct (map username (users w))
                     \<longrightarrow> get_current_user w tok2 = Inr cu
                       \<and> get_current_active_user w tok2 = Inr cu)))
       \<and> ((\<forall>s. two_factor_secret cu = Some s \<longrightarrow> \<not> totp_verify w s code (utcnow w))
          \<longrightarrow> (\<exists>detail headers. verify_2fa_login w tok code uuid4_hex =
                  Inl (HTTPException 400 detail headers)))"
proof (intro conjI impI)
  assume h: "is_two_factor_enabled cu \<and> two_factor_secret cu = Some secret \<and> secret \<noteq> []
          \<and> totp_verify w secret code (utcnow w) \<and> \<not> redis_exists w (blocked_key uuid4_hex)"
  let ?tok2 = "JWT (SECRET_KEY w)
                     \<lparr>sub = Some (username cu), scope = None, user_id = None,
                      jti = Some uuid4_hex, exp = Some (utcnow w + 1800)\<rparr>"
  have iss: "verify_2fa_login w tok code uuid4_hex =
                    Inr \<lparr>access_token = ?tok2, token_type = ''bearer'',
                         is_2fa_required = None, response_user_id = None\<rparr>"
    using assms h by (simp add: verify_2fa_login_issues)
  have mem: "cu \<in> set (users w)"
    using get_current_user_for_2fa_accepts [OF assms] by (auto dest: find_Some_mem)
  then obtain u' where f: "find (\<lambda>z. username z = username cu) (users w) = Some u'"
    and n: "username u' = username cu"
    using find_same_name by blast
  have res: "get_current_user w ?tok2 = Inr u'"
    using f by (rule get_current_user_fresh) (use h in simp_all)
  have act: "get_current_user w ?tok2 = Inr cu \<and> get_current_active_user w ?tok2 = Inr cu"
    if a: "is_active cu" and d: "distinct (map username (users w))"
  proof -
    have "find (\<lambda>x. username x = username cu) (users w) = Some cu"
      using d mem by (rule find_username_distinct)
    then have "get_current_user w ?tok2 = Inr cu"
      by (rule get_current_user_fresh) (use h in simp_all)
    with a show ?thesis by (simp add: get_current_active_user_def)
  qed
  from iss n res act
  show "\<exists>tok2 u'. verify_2fa_login w tok code uuid4_hex =
                    Inr \<lparr>access_token = tok2, token_type = ''bearer'',
                         is_2fa_required = None, response_user_id = None\<rparr>
                \<and> tok2 = JWT (SECRET_KEY w)
                     \<lparr>sub = Some (username cu), scope = None, user_id = None,
                      jti = Some uuid4_hex, exp = Some (utcnow w + 1800)\<rparr>
                \<and> get_current_user w tok2 = Inr u' \<and> username u' = username cu
                \<and> (is_active cu \<and> distinct (map username (users w))
                     \<longrightarrow> get_current_user w tok2 = Inr cu
                       \<and> get_current_active_user w tok2 = Inr cu)"
    by blast
next
  assume "\<forall>s. two_factor_secret cu = Some s \<longrightarrow> \<not> totp_verify w s code (utcnow w)"
  with assms show "\<exists>detail headers. verify_2fa_login w tok code uuid4_hex =
                  Inl (HTTPException 400 detail headers)"
    by (rule verify_2fa_login_wrong_code)
qed

theorem second_factor_completion_resolves_active_principal_witness:
  "get_current_user_for_2fa world1
     (restricted_for ''erin'' 5 ''00112233445566778899aabbccddeeff'' 1300) = Inr erin
   \<and> is_active erin \<and> is_two_factor_enabled erin
   \<and> distinct (map username (users world1))
   \<and> totp_verify world1 ''GEZDGNBVGY3TQOJQGEZDGNBVGY3TQOJQ'' ''841346'' (utcnow world1)
   \<and> verify_2fa_login world1
         (restricted_for ''erin'' 5 ''00112233445566778899aabbccddeeff'' 1300)
         ''841346'' ''a3f1c29e5b7d4e0f8c6a1b2d3e4f5061'' =
       Inr \<lparr>access_token = bearer_for ''erin'' ''a3f1c29e5b7d4e0f8c6a1b2d3e4f5061'' 2800,
            token_type = ''bearer'', is_2fa_required = None, response_user_id = None\<rparr>
   \<and> get_current_user world1 (bearer_for ''erin'' ''a3f1c29e5b7d4e0f8c6a1b2d3e4f5061'' 2800)
       = Inr erin
   \<and> get_current_active_user world1
         (bearer_for ''erin'' ''a3f1c29e5b7d4e0f8c6a1b2d3e4f5061'' 2800) = Inr erin
   \<and> \<not> totp_verify world1 ''GEZDGNBVGY3TQOJQGEZDGNBVGY3TQOJQ'' ''000000'' (utcnow world1)
   \<and> verify_2fa_login world1
         (restricted_for ''erin'' 5 ''00112233445566778899aabbccddeeff'' 1300)
         ''000000'' ''a3f1c29e5b7d4e0f8c6a1b2d3e4f5061'' =
       Inl (HTTPException 400 ''Invalid 2FA code.'' [(''WWW-Authenticate'', ''Bearer'')])"
proof -
  let ?r = "restricted_for ''erin'' 5 ''00112233445566778899aabbccddeeff'' 1300"
  let ?j = "''a3f1c29e5b7d4e0f8c6a1b2d3e4f5061''"
  have a: "get_current_user_for_2fa world1 ?r = Inr erin"
    by (rule get_current_user_for_2fa_world1)
  have e: "is_active erin" "is_two_factor_enabled erin"
    "two_factor_secret erin = Some ''GEZDGNBVGY3TQOJQGEZDGNBVGY3TQOJQ''"
    "username erin = ''erin''"
    by (simp_all add: erin_def)
  have d: "distinct (map username (users world1))"
    by (simp add: world1_fields dave_def erin_def)
  have t: "totp_verify world1 ''GEZDGNBVGY3TQOJQGEZDGNBVGY3TQOJQ'' ''841346'' (utcnow world1)"
    by (simp add: world1_fields)
  have fr: "\<not> redis_exists world1 (blocked_key ?j)"
    by (simp add: redis_exists_def world1_fields)
  have ok: "is_two_factor_enabled erin
          \<and> two_factor_secret erin = Some ''GEZDGNBVGY3TQOJQGEZDGNBVGY3TQOJQ''
          \<and> ''GEZDGNBVGY3TQOJQGEZDGNBVGY3TQOJQ'' \<noteq> []
          \<and> totp_verify world1 ''GEZDGNBVGY3TQOJQGEZDGNBVGY3TQOJQ'' ''841346'' (utcnow world1)
          \<and> \<not> redis_exists world1 (blocked_key ?j)"
    using e t fr by simp
  have nt: "\<not> totp_verify world1 ''GEZDGNBVGY3TQOJQGEZDGNBVGY3TQOJQ'' ''000000'' (utcnow world1)"
    by (simp add: world1_fields)
  have bad: "\<forall>s. two_factor_secret erin = Some s \<longrightarrow>
               \<not> totp_verify world1 s ''000000'' (utcnow world1)"
    using nt by (simp add: e)
  have w: "verify_2fa_login world1 ?r ''000000'' ?j =
       Inl (HTTPException 400 ''Invalid 2FA code.'' [(''WWW-Authenticate'', ''Bearer'')])"
    using nt by (simp add: verify_2fa_login_def a e world1_fields dave_def)
  from second_factor_completion_resolves_active_principal
         [OF a, of "''GEZDGNBVGY3TQOJQGEZDGNBVGY3TQOJQ''" "''841346''" ?j] ok e(1) d
  have good: "verify_2fa_login world1 ?r ''841346'' ?j =
       Inr \<lparr>access_token = bearer_for ''erin'' ?j 2800,
            token_type = ''bearer'', is_2fa_required = None, response_user_id = None\<rparr>
     \<and> get_current_user world1 (bearer_for ''erin'' ?j 2800) = Inr erin
     \<and> get_current_active_user world1 (bearer_for ''erin'' ?j 2800) = Inr erin"
    by (auto simp: world1_fields e bearer_for_def)
  from second_factor_completion_resolves_active_principal
         [OF a, of "''GEZDGNBVGY3TQOJQGEZDGNBVGY3TQOJQ''" "''000000''" ?j] bad
  have "\<exists>detail headers. verify_2fa_login world1 ?r ''000000'' ?j =
          Inl (HTTPException 400 detail headers)"
    by blast
  with a e(1,2) d t good nt w show ?thesis by simp
qed

text \<open>
  The claim as it was stated fails at a deactivated principal: in the deployment with
  base32 secrets, dave's restricted token is accepted, his code verifies and a bearer token
  is issued, but \<open>get_current_active_user\<close> answers it with 400.
\<close>

theorem second_factor_token_of_inactive_principal_rejected:
  "get_current_user_for_2fa world1
     (restricted_for ''dave'' 4 ''0f1e2d3c4b5a69788796a5b4c3d2e1f0'' 1300) = Inr dave
   \<and> is_two_factor_enabled dave \<and> two_factor_secret dave = Some ''JBSWY3DPEHPK3PXP''
   \<and> totp_verify world1 ''JBSWY3DPEHPK3PXP'' ''475209'' (utcnow world1)
   \<and> verify_2fa_login world1
         (restricted_for ''dave'' 4 ''0f1e2d3c4b5a69788796a5b4c3d2e1f0'' 1300)
         ''475209'' ''5d41402abc4b2a76b9719d911017c592'' =
       Inr \<lparr>access_token = bearer_for ''dave'' ''5d41402abc4b2a76b9719d911017c592'' 2800,
            token_type = ''bearer'', is_2fa_required = None, response_user_id = None\<rparr>
   \<and> get_current_active_user world1
         (bearer_for ''dave'' ''5d41402abc4b2a76b9719d911017c592'' 2800) =
       Inl (HTTPException 400 ''Inactive user'' [])
   \<and> read_users_me world1 (bearer_for ''dave'' ''5d41402abc4b2a76b9719d911017c592'' 2800) =
       Inl (HTTPException 400 ''Inactive user'' [])"
proof -
  let ?r = "restricted_for ''dave'' 4 ''0f1e2d3c4b5a69788796a5b4c3d2e1f0'' 1300"
  let ?j = "''5d41402abc4b2a76b9719d911017c592''"
  have a: "get_current_user_for_2fa world1 ?r = Inr dave"
    by (rule get_current_user_for_2fa_world1)
  have e: "is_two_factor_enabled dave" "two_factor_secret dave = Some ''JBSWY3DPEHPK3PXP''"
    "username dave = ''dave''" "\<not> is_active dave"
    by (simp_all add: dave_def)
  have t: "totp_verify world1 ''JBSWY3DPEHPK3PXP'' ''475209'' (utcnow world1)"
    by (simp add: world1_fields)
  have v: "verify_2fa_login world1 ?r ''475209'' ?j =
       Inr \<lparr>access_token = bearer_for ''dave'' ?j 2800,
            token_type = ''bearer'', is_2fa_required = None, response_user_id = None\<rparr>"
    using verify_2fa_login_issues [OF a e(1) e(2) _ t, of ?j]
    by (simp add: world1_fields e bearer_for_def)
  have g: "get_current_user world1 (bearer_for ''dave'' ?j 2800) = Inr dave"
    by (simp add: get_current_user_def jwt_decode_def redis_exists_def world1_fields
        bearer_for_def) (simp add: dave_def)
  have r: "get_current_active_user world1 (bearer_for ''dave'' ?j 2800) =
       Inl (HTTPException 400 ''Inactive user'' [])"
    by (simp add: get_current_active_user_def g e)
  from a e(1,2) t v r show ?thesis by (simp add: read_users_me_def)
qed

text \<open>
  C6: a login with a username that is not in the table and a login with a stored username
  whose digest does not verify the password have the same outcome: the exception with status
  401, detail \<open>Incorrect username or password\<close> and the header \<open>WWW-Authenticate: Bearer\<close>.
\<close>

theorem login_failures_indistinguishable:
  assumes "find (\<lambda>u. username u = name1) (users w) = None"
      and "find (\<lambda>u. username u = name2) (users w) = Some u"
      and "verify_password w password2 (hashed_password u) = Inr False"
  shows "login_for_access_token w name1 password1 uuid1 =
           Inl (HTTPException 401 ''Incorrect username or password''
                  [(''WWW-Authenticate'', ''Bearer'')])
       \<and> login_for_access_token w name2 password2 uuid2 =
           login_for_access_token w name1 password1 uuid1"
  using assms by (simp add: login_for_access_token_def authenticate_user_def)

theorem login_failures_indistinguishable_witness:
  "find (\<lambda>u. username u = ''mallory'') (users world0) = None
   \<and> find (\<lambda>u. username u = ''alice'') (users world0) = Some alice
   \<and> verify_password world0 ''wrong-pw'' (hashed_password alice) = Inr False
   \<and> login_for_access_token world0 ''mallory'' ''x'' ''j1'' =
       Inl (HTTPException 401 ''Incorrect username or password''
              [(''WWW-Authenticate'', ''Bearer'')])
   \<and> login_for_access_token world0 ''alice'' ''wrong-pw'' ''j2'' =
       login_for_access_token world0 ''mallory'' ''x'' ''j1''"
proof -
  have h1: "find (\<lambda>u. username u = ''mallory'') (users world0) = None"
    by (simp add: users_world0 alice_def bob_def carol_def)
  have h2: "find (\<lambda>u. username u = ''alice'') (users world0) = Some alice"
    by (simp add: users_world0 alice_def)
  have h3: "verify_password world0 ''wrong-pw'' (hashed_password alice) = Inr False"
    by (simp add: alice_def verify_password_world0 [of "''wrong-pw''" "''correct-pw''", simplified])
  from login_failures_indistinguishable [OF h1 h2 h3, of "''x''" "''j1''" "''j2''"] h1 h2 h3
  show ?thesis by simp
qed

text \<open>
  C7, as the code has it: for every token that \<open>get_current_user\<close> resolves to a principal
  whose active flag is false, \<open>get_current_active_user\<close> raises the exception with status
  400 (the status of a bad request) and detail \<open>Inactive user\<close>. The status is not 403.
\<close>

theorem inactive_principal_rejected_with_400:
  assumes "get_current_user w tok = Inr u" and "\<not> is_active u"
  shows "get_current_active_user w tok = Inl (HTTPException 400 ''Inactive user'' [])"
  using assms by (simp add: get_current_active_user_def)

theorem inactive_principal_rejected_with_400_witness:
  "get_current_user world0 (bearer_for ''carol'' ''j3'' 2800) = Inr carol \<and> \<not> is_active carol
   \<and> get_current_active_user world0 (bearer_for ''carol'' ''j3'' 2800) =
       Inl (HTTPException 400 ''Inactive user'' [])"
proof -
  have h1: "get_current_user world0 (bearer_for ''carol'' ''j3'' 2800) = Inr carol"
    by (simp add: get_current_user_def jwt_decode_def redis_exists_def deployment_defs)
  have h2: "\<not> is_active carol"
    by (simp add: carol_def)
  from inactive_principal_rejected_with_400 [OF h1 h2] h1 h2 show ?thesis by simp
qed

theorem inactive_principal_not_forbidden:
  "get_current_user world0 (bearer_for ''carol'' ''j3'' 2800) = Inr carol \<and> \<not> is_active carol
   \<and> http_status (get_current_active_user world0 (bearer_for ''carol'' ''j3'' 2800)) \<noteq> Some 403"
  by (simp add: get_current_active_user_def get_current_user_def jwt_decode_def
      redis_exists_def deployment_defs)

text \<open>
  C8, as the code has it: \<open>verify_password\<close> hands both arguments to the hashing context and
  has no handler of its own. For a digest that starts with one of the bcrypt prefixes the
  outcome is that of the bcrypt handler; for every other digest (empty, malformed, of another
  scheme) the context raises \<open>UnknownHashError\<close>, and so does \<open>verify_password\<close>: it does not
  return false.
\<close>

theorem verify_password_unidentified_digest_raises:
  "(\<not> bcrypt_identify h \<longrightarrow> verify_password w plain h = Inl UnknownHashError)
 \<and> (bcrypt_identify h \<longrightarrow> verify_password w plain h = bcrypt_verify w plain h)"
  by (simp add: verify_password_def pwd_context_verify_def)

theorem verify_password_unidentified_digest_raises_witness:
  "\<not> bcrypt_identify ''5f4dcc3b5aa765d61d8327deb882cf99''
   \<and> verify_password world0 ''password'' ''5f4dcc3b5aa765d61d8327deb882cf99'' = Inl UnknownHashError
   \<and> bcrypt_identify ''$2b$correct-pw''
   \<and> verify_password world0 ''correct-pw'' ''$2b$correct-pw'' = Inr True"
proof -
  have h1: "\<not> bcrypt_identify ''5f4dcc3b5aa765d61d8327deb882cf99''"
    by (simp add: bcrypt_identify_def bcrypt_ident_values_def starts_with_def)
  have h2: "bcrypt_identify ''$2b$correct-pw''"
    by (simp add: bcrypt_identify_2b)
  have b: "bcrypt_verify world0 ''correct-pw'' ''$2b$correct-pw'' = Inr True"
    by (simp add: world0_def)
  from verify_password_unidentified_digest_raises
         [of "''5f4dcc3b5aa765d61d8327deb882cf99''" world0 "''password''"]
       verify_password_unidentified_digest_raises
         [of "''$2b$correct-pw''" world0 "''correct-pw''"] h1 h2 b
  show ?thesis by simp
qed

theorem verify_password_throws_on_malformed_digest:
  "verify_password world0 ''password'' ''5f4dcc3b5aa765d61d8327deb882cf99'' = Inl UnknownHashError
   \<and> verify_password world0 ''password'' [] = Inl UnknownHashError"
  by (simp add: verify_password_def pwd_context_verify_def bcrypt_identify_def
      bcrypt_ident_values_def starts_with_def)

text \<open>
  C9, evaluated where the code departs from it. The clock of \<open>add_token_to_blocklist\<close> is
  the local reading of a UTC datetime. For a token with 1800 seconds left at second 1000
  (expiry timestamp 2800): in New York the time to live comes out as -16200 and nothing is
  written; in Tokyo the entry \<open>blocked_jti:j1\<close> is written with a time to live of 34200
  seconds, and it is still seen at second 35199, while the token has expired from second
  2801 on. No other key is written.
\<close>

theorem add_token_to_blocklist_reads_local_clock:
  "add_token_to_blocklist new_york ''j1'' 2800 = new_york
   \<and> redis (add_token_to_blocklist tokyo ''j1'' 2800) ''blocked_jti:j1'' =
       Some \<lparr>entry_value = ''true'', ttl = 34200, stored_at = 1000\<rparr>
   \<and> redis (add_token_to_blocklist tokyo ''j1'' 2800) ''blocked_jti:j2'' = None
   \<and> redis_exists ((add_token_to_blocklist tokyo ''j1'' 2800)\<lparr>utcnow := 35199\<rparr>)
       ''blocked_jti:j1''
   \<and> jwt_decode (bearer_for ''alice'' ''j1'' 2800) ''k'' True 2801 = Inl ExpiredSignatureError"
proof -
  have ny: "add_token_to_blocklist new_york ''j1'' 2800 = new_york"
    by (simp add: add_token_to_blocklist_def local_timestamp_def new_york_def world0_fields)
  have tk: "add_token_to_blocklist tokyo ''j1'' 2800 =
              tokyo\<lparr>redis := (redis tokyo)(''blocked_jti:j1'' \<mapsto>
                \<lparr>entry_value = ''true'', ttl = 34200, stored_at = 1000\<rparr>)\<rparr>"
    by (simp add: add_token_to_blocklist_def local_timestamp_def redis_setex_def
        blocked_key_def tokyo_def world0_fields)
  have e: "redis tokyo key = None" for key
    by (simp add: tokyo_def world0_fields)
  have d: "jwt_decode (bearer_for ''alice'' ''j1'' 2800) ''k'' True 2801 =
             Inl ExpiredSignatureError"
    by (simp add: jwt_decode_def bearer_for_def)
  show ?thesis
    by (simp add: ny tk e d redis_exists_def)
qed

text \<open>
  C10: neither \<open>get_current_user_for_2fa\<close> nor \<open>verify_2fa_login\<close> reads the active flag:
  the outcome of the route is the same however the active flags of the table are set. For
  every principal whose active flag is false and whose second factor is enabled with a
  non-empty secret, a restricted token that \<open>get_current_user_for_2fa\<close> accepts, together
  with a code that verifies, yields a bearer token without scope claim. With unique
  usernames and an identifier that is not in the revocation store, \<open>get_current_user\<close>
  resolves that token to the principal and \<open>get_current_active_user\<close>, on which the
  protected routes depend, rejects it at the test of the active flag.
\<close>

theorem inactive_principal_completes_second_factor:
  assumes "get_current_user_for_2fa w tok = Inr cu" and "\<not> is_active cu"
      and "is_two_factor_enabled cu" and "two_factor_secret cu = Some secret"
      and "secret \<noteq> []" and "totp_verify w secret code (utcnow w)"
  shows "(\<forall>b. verify_2fa_login (w\<lparr>users := map (\<lambda>x. x\<lparr>is_active := b x\<rparr>) (users w)\<rparr>)
                tok code uuid4_hex = verify_2fa_login w tok code uuid4_hex)
       \<and> (\<exists>tok2. verify_2fa_login w tok code uuid4_hex =
            Inr \<lparr>access_token = tok2, token_type = ''bearer'',
                 is_2fa_required = None, response_user_id = None\<rparr>
          \<and> tok2 = JWT (SECRET_KEY w)
                 \<lparr>sub = Some (username cu), scope = None, user_id = None,
                  jti = Some uuid4_hex, exp = Some (utcnow w + 1800)\<rparr>
          \<and> (distinct (map username (users w)) \<and> \<not> redis_exists w (blocked_key uuid4_hex)
               \<longrightarrow> get_current_user w tok2 = Inr cu
                 \<and> get_current_active_user w tok2 =
                     Inl (HTTPException 400 ''Inactive user'' [])))"
proof -
  let ?tok2 = "JWT (SECRET_KEY w)
                     \<lparr>sub = Some (username cu), scope = None, user_id = None,
                      jti = Some uuid4_hex, exp = Some (utcnow w + 1800)\<rparr>"
  have iss: "verify_2fa_login w tok code uuid4_hex =
                    Inr \<lparr>access_token = ?tok2, token_type = ''bearer'',
                         is_2fa_required = None, response_user_id = None\<rparr>"
    using assms by (simp add: verify_2fa_login_issues)
  have mem: "cu \<in> set (users w)"
    using get_current_user_for_2fa_accepts [OF assms(1)] by (auto dest: find_Some_mem)
  have rej: "get_current_user w ?tok2 = Inr cu
          \<and> get_current_active_user w ?tok2 = Inl (HTTPException 400 ''Inactive user'' [])"
    if d: "distinct (map username (users w))"
      and fr: "\<not> redis_exists w (blocked_key uuid4_hex)"
  proof -
    have "find (\<lambda>x. username x = username cu) (users w) = Some cu"
      using d mem by (rule find_username_distinct)
    then have "get_current_user w ?tok2 = Inr cu"
      using fr by (rule get_current_user_fresh) simp
    with assms(2) show ?thesis by (simp add: get_current_active_user_def)
  qed
  have ign: "\<forall>b. verify_2fa_login (w\<lparr>users := map (\<lambda>x. x\<lparr>is_active := b x\<rparr>) (users w)\<rparr>)
                tok code uuid4_hex = verify_2fa_login w tok code uuid4_hex"
    by (simp add: verify_2fa_login_ignores_active)
  from iss rej have "\<exists>tok2. verify_2fa_login w tok code uuid4_hex =
            Inr \<lparr>access_token = tok2, token_type = ''bearer'',
                 is_2fa_required = None, response_user_id = None\<rparr>
          \<and> tok2 = JWT (SECRET_KEY w)
                 \<lparr>sub = Some (username cu), scope = None, user_id = None,
                  jti = Some uuid4_hex, exp = Some (utcnow w + 1800)\<rparr>
          \<and> (distinct (map username (users w)) \<and> \<not> redis_exists w (blocked_key uuid4_hex)
               \<longrightarrow> get_current_user w tok2 = Inr cu
                 \<and> get_current_active_user w tok2 =
                     Inl (HTTPException 400 ''Inactive user'' []))"
    by blast
  with ign show ?thesis by (rule conjI)
qed

theorem inactive_principal_completes_second_factor_witness:
  "get_current_user_for_2fa world0 (restricted_for ''carol'' 3 ''j9'' 1300) = Inr carol
   \<and> \<not> is_active carol \<and> is_two_factor_enabled carol
   \<and> totp_verify world0 ''C'' ''code-for-C'' (utcnow world0)
   \<and> verify_2fa_login world0 (restricted_for ''carol'' 3 ''j9'' 1300) ''code-for-C'' ''j10'' =
       Inr \<lparr>access_token = bearer_for ''carol'' ''j10'' 2800, token_type = ''bearer'',
            is_2fa_required = None, response_user_id = None\<rparr>
   \<and> get_current_user world0 (bearer_for ''carol'' ''j10'' 2800) = Inr carol
   \<and> get_current_active_user world0 (bearer_for ''carol'' ''j10'' 2800) =
       Inl (HTTPException 400 ''Inactive user'' [])"
proof -
  have a: "get_current_user_for_2fa world0 (restricted_for ''carol'' 3 ''j9'' 1300) = Inr carol"
    by (rule get_current_user_for_2fa_world0)
  have h: "\<not> is_active carol" "is_two_factor_enabled carol"
    "two_factor_secret carol = Some ''C''" "''C'' \<noteq> []"
    by (simp_all add: carol_def)
  have t: "totp_verify world0 ''C'' ''code-for-C'' (utcnow world0)"
    by (simp add: world0_def)
  have d: "distinct (map username (users world0)) \<and> \<not> redis_exists world0 (blocked_key ''j10'')"
    by (simp add: redis_world0) (simp add: deployment_defs)
  have c: "SECRET_KEY world0 = ''k''" "utcnow world0 = 1000" "username carol = ''carol''"
    by (simp_all add: world0_def carol_def)
  from inactive_principal_completes_second_factor [OF a h t, of "''j10''"] a h t d
  show ?thesis
    by (auto simp: c bearer_for_def)
qed

text \<open>
  C2, evaluated where the code departs from it. At second 1000 a token of the active
  principal alice with expiry timestamp 1000 is accepted by \<open>get_current_active_user\<close>. The
  logout route answers with its success message and leaves the revocation store as it was,
  since the remaining time to live is 0; \<open>get_current_user\<close> then still resolves the token
  to alice.
\<close>

theorem logout_in_expiry_second_revokes_nothing:
  "get_current_active_user world0 (bearer_for ''alice'' ''j1'' 1000) = Inr alice
   \<and> logout world0 (bearer_for ''alice'' ''j1'' 1000) = (Inr ''Successfully logged out'', world0)
   \<and> get_current_user (snd (logout world0 (bearer_for ''alice'' ''j1'' 1000)))
       (bearer_for ''alice'' ''j1'' 1000) = Inr alice"
proof -
  have a: "get_current_user world0 (bearer_for ''alice'' ''j1'' 1000) = Inr alice"
    by (simp add: get_current_user_def jwt_decode_def redis_exists_def deployment_defs)
  have b: "get_current_active_user world0 (bearer_for ''alice'' ''j1'' 1000) = Inr alice"
    by (simp add: get_current_active_user_def a) (simp add: alice_def)
  have c: "logout_body world0 (bearer_for ''alice'' ''j1'' 1000) =
             (''Successfully logged out'', world0)"
    by (simp add: logout_body_def jwt_decode_def add_token_to_blocklist_any_zone bearer_for_def
        world0_fields)
  have d: "logout world0 (bearer_for ''alice'' ''j1'' 1000) =
             (Inr ''Successfully logged out'', world0)"
    by (simp add: logout_def b c)
  show ?thesis by (simp add: a b d)
qed

text \<open>
  C3, evaluated where the code departs from it. The logout route answers a malformed token
  and an expired token with the 401 of its dependency. A good token is logged out with the
  success message; the same token presented a second time is answered with that 401,
  because its identifier is now in the revocation store.
\<close>

theorem logout_answers_401_to_unusable_token:
  "fst (logout world0 (Garbage ''not-a-token'')) = Inl credentials_exception
   \<and> fst (logout world0 (bearer_for ''alice'' ''j1'' 999)) = Inl credentials_exception
   \<and> fst (logout world0 (bearer_for ''alice'' ''j1'' 2800)) = Inr ''Successfully logged out''
   \<and> fst (logout (snd (logout world0 (bearer_for ''alice'' ''j1'' 2800)))
            (bearer_for ''alice'' ''j1'' 2800)) = Inl credentials_exception"
proof -
  have g: "fst (logout world0 (Garbage ''not-a-token'')) = Inl credentials_exception"
    by (simp add: logout_def get_current_active_user_def get_current_user_def jwt_decode_def)
  have e: "fst (logout world0 (bearer_for ''alice'' ''j1'' 999)) = Inl credentials_exception"
    by (simp add: logout_def get_current_active_user_def get_current_user_def jwt_decode_def
        bearer_for_def world0_def)
  have a: "get_current_active_user world0 (bearer_for ''alice'' ''j1'' 2800) = Inr alice"
    by (simp add: get_current_active_user_def get_current_user_def jwt_decode_def
        redis_exists_def deployment_defs)
  have b: "logout_body world0 (bearer_for ''alice'' ''j1'' 2800) =
             (''Successfully logged out'',
              world0\<lparr>redis := (redis world0)(''blocked_jti:j1'' \<mapsto>
                 \<lparr>entry_value = ''true'', ttl = 1800, stored_at = 1000\<rparr>)\<rparr>)"
    by (simp add: logout_body_def jwt_decode_def add_token_to_blocklist_any_zone
        bearer_for_def world0_fields)
  have l: "logout world0 (bearer_for ''alice'' ''j1'' 2800) =
             (Inr ''Successfully logged out'',
              world0\<lparr>redis := (redis world0)(''blocked_jti:j1'' \<mapsto>
                 \<lparr>entry_value = ''true'', ttl = 1800, stored_at = 1000\<rparr>)\<rparr>)"
    by (simp add: logout_def a b)
  have s: "fst (logout (world0\<lparr>redis := (redis world0)(''blocked_jti:j1'' \<mapsto>
                 \<lparr>entry_value = ''true'', ttl = 1800, stored_at = 1000\<rparr>)\<rparr>)
            (bearer_for ''alice'' ''j1'' 2800)) = Inl credentials_exception"
    by (simp add: logout_def get_current_active_user_def get_current_user_def jwt_decode_def
        redis_exists_def blocked_key_def bearer_for_def world0_def)
  show ?thesis by (simp add: g e l s)
qed

end
